theory Spec2Isabelle
  imports Main
begin

section \<open>Settings\<close>

text \<open>
  The Go struct \<open>Config\<close> of \<open>main.go\<close>: seven string fields. The package-level
  variable \<open>config\<close> starts as the zero value, every field the empty string; the
  functions below take the current record and return the updated one.
\<close>

record Config =
  RouterIP :: string
  Stok :: string
  IPv6FirewallEnable :: string
  DmzDestIP :: string
  DmzDestIP6 :: string
  ServerPort :: string
  DmzEnable :: string

definition zeroConfig :: Config where
  "zeroConfig = \<lparr>RouterIP = '''', Stok = '''', IPv6FirewallEnable = '''', DmzDestIP = '''',
     DmzDestIP6 = '''', ServerPort = '''', DmzEnable = ''''\<rparr>"

text \<open>The fields by name, with the key each one carries in its \<open>json\<close> struct tag.\<close>

datatype fieldName =
  FRouterIP | FStok | FIPv6FirewallEnable | FDmzDestIP | FDmzDestIP6 | FServerPort | FDmzEnable

fun tag :: "fieldName \<Rightarrow> string" where
  "tag FRouterIP = ''router_ip''"
| "tag FStok = ''stok''"
| "tag FIPv6FirewallEnable = ''ipv6_firewall_enable''"
| "tag FDmzDestIP = ''dmz_dest_ip''"
| "tag FDmzDestIP6 = ''dmz_dest_ip6''"
| "tag FServerPort = ''server_port''"
| "tag FDmzEnable = ''dmz_enable''"

fun setField :: "fieldName \<Rightarrow> string \<Rightarrow> Config \<Rightarrow> Config" where
  "setField FRouterIP v c = c\<lparr>RouterIP := v\<rparr>"
| "setField FStok v c = c\<lparr>Stok := v\<rparr>"
| "setField FIPv6FirewallEnable v c = c\<lparr>IPv6FirewallEnable := v\<rparr>"
| "setField FDmzDestIP v c = c\<lparr>DmzDestIP := v\<rparr>"
| "setField FDmzDestIP6 v c = c\<lparr>DmzDestIP6 := v\<rparr>"
| "setField FServerPort v c = c\<lparr>ServerPort := v\<rparr>"
| "setField FDmzEnable v c = c\<lparr>DmzEnable := v\<rparr>"

section \<open>Errors\<close>

text \<open>
  Go's \<open>error\<close> values that the program can meet. The operating system's and the
  network's errors, and the ones made by \<open>fmt.Errorf\<close>, carry their message; the
  two errors of \<open>encoding/json\<close> are a syntax error (with the parser's message) and
  a type error, which names the kind of JSON value found and the field it was meant for
  (none at the top level).
\<close>

datatype jkind = KBool | KNumber | KString | KArray | KObject

datatype error =
  PathError string
| ReadError string
| SyntaxError string
| UnmarshalTypeError jkind "fieldName option"
| UrlError string
| SyscallError string
| ErrorString string

fun kindName :: "jkind \<Rightarrow> string" where
  "kindName KBool = ''bool''"
| "kindName KNumber = ''number''"
| "kindName KString = ''string''"
| "kindName KArray = ''array''"
| "kindName KObject = ''object''"

text \<open>The method \<open>Error()\<close>, which \<open>%v\<close> prints.\<close>

fun Error :: "error \<Rightarrow> string" where
  "Error (PathError m) = m"
| "Error (ReadError m) = m"
| "Error (SyntaxError m) = m"
| "Error (UnmarshalTypeError k None) =
     ''json: cannot unmarshal '' @ kindName k @ '' into Go value of type main.Config''"
| "Error (UnmarshalTypeError k (Some f)) =
     ''json: cannot unmarshal '' @ kindName k @ '' into Go struct field Config.'' @ tag f
       @ '' of type string''"
| "Error (UrlError m) = m"
| "Error (SyscallError m) = m"
| "Error (ErrorString m) = m"

section \<open>The config file\<close>

text \<open>
  \<open>json.Unmarshal(bytes, &config)\<close> is the standard library's decoder, applied to a
  struct of string fields. The bytes are represented by what the decoder makes of them:

  \<^item> \<open>Invalid m\<close>: the text is not one JSON value. The decoder checks the syntax of the
    whole input before it stores anything, so the target is left as it was.
  \<^item> \<open>TopNull\<close>: the literal \<open>null\<close>, which leaves a struct as it is, with no error.
  \<^item> \<open>TopOther k\<close>: a boolean, number, string or array, which is a type error for a
    struct target.
  \<^item> \<open>TopObject ms\<close>: an object. Its members come in document order, each key given as the
    struct field it selects under the decoder's matching of keys against the \<open>json\<close>
    tags (\<open>None\<close> for a key that selects no field, which is skipped).

  A member's value is \<open>null\<close> (the field is left alone), a string (stored), or a value
  of another kind: then the decoder records a type error, keeps only the first one, and
  goes on with the members that follow. The recorded error is returned at the end.
\<close>

datatype jvalue = VNull | VString string | VOther jkind

datatype document =
  Invalid string
| TopNull
| TopOther jkind
| TopObject "(fieldName option \<times> jvalue) list"

fun saveError :: "error option \<Rightarrow> error \<Rightarrow> error option" where
  "saveError None e = Some e"
| "saveError (Some e0) e = Some e0"

fun storeMember :: "error option \<times> Config \<Rightarrow> fieldName option \<times> jvalue \<Rightarrow> error option \<times> Config" where
  "storeMember (saved, c) (None, v) = (saved, c)"
| "storeMember (saved, c) (Some f, VNull) = (saved, c)"
| "storeMember (saved, c) (Some f, VString s) = (saved, setField f s c)"
| "storeMember (saved, c) (Some f, VOther k) = (saveError saved (UnmarshalTypeError k (Some f)), c)"

fun Unmarshal :: "document \<Rightarrow> Config \<Rightarrow> error option \<times> Config" where
  "Unmarshal (Invalid m) c = (Some (SyntaxError m), c)"
| "Unmarshal TopNull c = (None, c)"
| "Unmarshal (TopOther k) c = (Some (UnmarshalTypeError k None), c)"
| "Unmarshal (TopObject ms) c = foldl storeMember (None, c) ms"

text \<open>
  A file as \<open>os.Open\<close> returns it: what \<open>io.ReadAll\<close> gives on it, an error or
  the content. The file system maps a name to an error or a file.
\<close>

datatype osFile = File "error + document"

text \<open>
  \<open>readConfig\<close>, lines 39 to 60 of \<open>main.go\<close>. It returns the error (\<open>None\<close> for
  \<open>nil\<close>) and the new value of \<open>config\<close>.
\<close>

definition readConfig :: "(string \<Rightarrow> error + osFile) \<Rightarrow> string \<Rightarrow> Config \<Rightarrow> error option \<times> Config" where
  "readConfig os_Open filename config =
     (case os_Open filename of
        Inl err \<Rightarrow> (Some err, config\<lparr>ServerPort := ''8080'', DmzEnable := ''1''\<rparr>)
      | Inr (File content) \<Rightarrow>
          (case content of
             Inl err \<Rightarrow> (Some err, config\<lparr>ServerPort := ''8080'', DmzEnable := ''1''\<rparr>)
           | Inr bytes \<Rightarrow> Unmarshal bytes (config\<lparr>ServerPort := ''8080'', DmzEnable := ''1''\<rparr>)))"

section \<open>The Router Client\<close>

text \<open>
  The value that \<open>sendRequest\<close> builds: Go maps from strings to strings or further
  maps. A Go map has no order; the members are listed here as the source lists them, and
  \<open>member\<close> reads them by key, as a map does.
\<close>

datatype jsonValue = JStr string | JMap "(string \<times> jsonValue) list"

fun member :: "string \<Rightarrow> jsonValue \<Rightarrow> jsonValue option" where
  "member k (JStr s) = None"
| "member k (JMap ms) = map_of ms k"

fun keys :: "jsonValue \<Rightarrow> string set" where
  "keys (JStr s) = {}"
| "keys (JMap ms) = fst ` set ms"

text \<open>
  \<open>json.Marshal\<close> yields the JSON text of a value or an error. The text is kept
  abstract, as the encoding of the value it spells. Maps with string keys and strings are
  always encodable, so for these values \<open>json.Marshal\<close> returns no error.
\<close>

datatype bytes = JSONText jsonValue

definition Marshal :: "jsonValue \<Rightarrow> error + bytes" where
  "Marshal v = Inr (JSONText v)"

text \<open>
  One call of \<open>http.Post(url, contentType, body)\<close>, and what comes back: an error, or
  a response with its status code and what \<open>io.ReadAll\<close> gives on its body (an error
  or the whole body). The router and the network are the function \<open>http_Post\<close>.
\<close>

record postCall =
  url :: string
  contentType :: string
  body :: bytes

record Response =
  StatusCode :: int
  Body :: "error + string"

type_synonym network = "postCall \<Rightarrow> error + Response"

text \<open>
  The prefixes of the three failure texts of \<open>sendRequest\<close>: the format strings of
  lines 81, 88 and 94 up to their \<open>%v\<close>, as UTF-8 bytes ("error: ", "request error: "
  and "error reading the response: ", in Chinese).
\<close>

definition msg_error :: string where
  "msg_error =
   [CHR 0xE9, CHR 0x94, CHR 0x99, CHR 0xE8, CHR 0xAF, CHR 0xAF] @
   '': ''"

definition msg_request_error :: string where
  "msg_request_error =
   [CHR 0xE8, CHR 0xAF, CHR 0xB7, CHR 0xE6, CHR 0xB1, CHR 0x82, CHR 0xE9, CHR 0x94] @
   [CHR 0x99, CHR 0xE8, CHR 0xAF, CHR 0xAF] @
   '': ''"

definition msg_read_error :: string where
  "msg_read_error =
   [CHR 0xE8, CHR 0xAF, CHR 0xBB, CHR 0xE5, CHR 0x8F, CHR 0x96, CHR 0xE5, CHR 0x93] @
   [CHR 0x8D, CHR 0xE5, CHR 0xBA, CHR 0x94, CHR 0xE9, CHR 0x94, CHR 0x99, CHR 0xE8] @
   [CHR 0xAF, CHR 0xAF] @
   '': ''"

definition requestBody :: "Config \<Rightarrow> jsonValue" where
  "requestBody config =
     JMap [
       (''firewall'', JMap [
          (''dmz'', JMap [
             (''enable'', JStr (DmzEnable config)),
             (''dest_ip'', JStr (DmzDestIP config)),
             (''wan_port'', JStr ''0''),
             (''dest_ip6'', JStr (DmzDestIP6 config))]),
          (''ipv6_firewall'', JMap [
             (''enable'', JStr (IPv6FirewallEnable config))])]),
       (''method'', JStr ''set'')]"

text \<open>
  \<open>sendRequest\<close>, lines 63 to 98. Beside the two results of the Go function the model
  returns the list of the calls of \<open>http.Post\<close> it made.
\<close>

definition sendRequest :: "network \<Rightarrow> Config \<Rightarrow> (bool \<times> string) \<times> postCall list" where
  "sendRequest http_Post config =
     (case Marshal (requestBody config) of
        Inl err \<Rightarrow> ((False, msg_error @ Error err), [])
      | Inr b \<Rightarrow>
          (let call = \<lparr>url = ''http://'' @ RouterIP config @ ''/stok='' @ Stok config @ ''/ds'',
                        contentType = ''application/json'', body = b\<rparr>
           in case http_Post call of
                Inl err \<Rightarrow> ((False, msg_request_error @ Error err), [call])
              | Inr resp \<Rightarrow>
                  (case Body resp of
                     Inl err \<Rightarrow> ((False, msg_read_error @ Error err), [call])
                   | Inr responseBody \<Rightarrow> ((StatusCode resp = 200, responseBody), [call]))))"

section \<open>The Form Server\<close>

text \<open>
  The \<open>http.ResponseWriter\<close> of \<open>net/http\<close>, as far as the handler uses it. The status
  line is fixed by the first \<open>WriteHeader\<close>; a \<open>Write\<close> before any \<open>WriteHeader\<close> first
  does \<open>WriteHeader(200)\<close>; a later \<open>WriteHeader\<close> is ignored (the server logs it as
  superfluous). \<open>location\<close> is the \<open>Location\<close> entry of the header map.
\<close>

record ResponseWriter =
  wroteHeader :: bool
  status :: int
  location :: "string option"
  written :: string

definition newResponseWriter :: ResponseWriter where
  "newResponseWriter = \<lparr>wroteHeader = False, status = 0, location = None, written = []\<rparr>"

definition WriteHeader :: "int \<Rightarrow> ResponseWriter \<Rightarrow> ResponseWriter" where
  "WriteHeader code w = (if wroteHeader w then w else w\<lparr>wroteHeader := True, status := code\<rparr>)"

definition Write :: "string \<Rightarrow> ResponseWriter \<Rightarrow> ResponseWriter" where
  "Write s w = (let w1 = (if wroteHeader w then w else WriteHeader 200 w)
                in w1\<lparr>written := written w1 @ s\<rparr>)"

text \<open>
  \<open>http.Redirect(w, r, url, code)\<close> for a request whose method is not GET: it sets the
  \<open>Location\<close> header and calls \<open>WriteHeader(code)\<close>; it writes a body for GET only, and
  the handler calls it for POST only.
\<close>

definition Redirect :: "string \<Rightarrow> int \<Rightarrow> ResponseWriter \<Rightarrow> ResponseWriter" where
  "Redirect target code w = WriteHeader code (w\<lparr>location := Some target\<rparr>)"

text \<open>
  When the handler returns without having written anything, the server sends status 200.
  \<open>isRedirect\<close> is what a client sees as a redirect to \<open>target\<close>: the status given
  and the \<open>Location\<close> header.
\<close>

definition finishRequest :: "ResponseWriter \<Rightarrow> ResponseWriter" where
  "finishRequest w = (if wroteHeader w then w else WriteHeader 200 w)"

definition isRedirect :: "int \<Rightarrow> string \<Rightarrow> ResponseWriter \<Rightarrow> bool" where
  "isRedirect code target w \<longleftrightarrow> status (finishRequest w) = code \<and> location w = Some target"

text \<open>
  The request: its method and its form values (the parsed form, a map from a name to the
  list of its values). \<open>FormValue\<close> is the first value of the name, or the empty string.
\<close>

record Request =
  Method :: string
  Form :: "(string \<times> string list) list"

definition FormValue :: "Request \<Rightarrow> string \<Rightarrow> string" where
  "FormValue r key = (case map_of (Form r) key of
                        None \<Rightarrow> []
                      | Some [] \<Rightarrow> []
                      | Some (v # vs) \<Rightarrow> v)"

text \<open>
  \<open>strings.ToLower\<close>: a string of ASCII bytes only has its letters \<open>A\<close> to \<open>Z\<close>
  replaced by \<open>a\<close> to \<open>z\<close>; any other string goes through the Unicode mapping of
  the standard library, which is the parameter \<open>unicodeLower\<close>.
\<close>

definition isASCII :: "char \<Rightarrow> bool" where
  "isASCII c \<longleftrightarrow> of_char c < (128::nat)"

definition lowerASCII :: "char \<Rightarrow> char" where
  "lowerASCII c = (if (65::nat) \<le> of_char c \<and> of_char c \<le> (90::nat)
                   then char_of (of_char c + (32::nat)) else c)"

definition ToLower :: "(string \<Rightarrow> string) \<Rightarrow> string \<Rightarrow> string" where
  "ToLower unicodeLower s = (if list_all isASCII s then map lowerASCII s else unicodeLower s)"

text \<open>
  The format strings of lines 122 and 132 up to their \<open>%s\<close>, as UTF-8 bytes. The
  first says that the DMZ flag must be 0 or 1 and that the former value, which follows,
  has been kept; the second says that the operation failed.
\<close>

definition msg_dmz_invalid :: string where
  "msg_dmz_invalid =
   ''DMZ'' @
   [CHR 0xE5, CHR 0x90, CHR 0xAF, CHR 0xE7, CHR 0x94, CHR 0xA8, CHR 0xE7, CHR 0x8A] @
   [CHR 0xB6, CHR 0xE6, CHR 0x80, CHR 0x81, CHR 0xE5, CHR 0xBF, CHR 0x85, CHR 0xE9] @
   [CHR 0xA1, CHR 0xBB, CHR 0xE4, CHR 0xB8, CHR 0xBA] @
   ''0'' @
   [CHR 0xE6, CHR 0x88, CHR 0x96] @
   ''1'' @
   [CHR 0xEF, CHR 0xBC, CHR 0x8C, CHR 0xE5, CHR 0xB7, CHR 0xB2, CHR 0xE4, CHR 0xBF] @
   [CHR 0x9D, CHR 0xE6, CHR 0x8C, CHR 0x81, CHR 0xE5, CHR 0x8E, CHR 0x9F, CHR 0xE6] @
   [CHR 0x9C, CHR 0x89, CHR 0xE5, CHR 0x80, CHR 0xBC] @
   '': ''"

definition msg_failed :: string where
  "msg_failed =
   [CHR 0xE6, CHR 0x93, CHR 0x8D, CHR 0xE4, CHR 0xBD, CHR 0x9C, CHR 0xE5, CHR 0xA4] @
   [CHR 0xB1, CHR 0xE8, CHR 0xB4, CHR 0xA5] @
   '': ''"

text \<open>
  The form template, cut at its six actions. \<open>html/template\<close> escapes a value inside a
  quoted attribute byte by byte: seven ASCII characters are replaced, every other byte is
  kept.
\<close>

definition tmpl_text0 :: string where
  \<open>tmpl_text0 =
   ''<html>'' @
   [CHR 0x0A, CHR 0x09, CHR 0x09] @
   ''<body>'' @
   [CHR 0x0A, CHR 0x09, CHR 0x09, CHR 0x09] @
   ''<form method="post">'' @
   [CHR 0x0A, CHR 0x09, CHR 0x09, CHR 0x09, CHR 0x09] @
   ''<label>Router IP:</label><br>'' @
   [CHR 0x0A, CHR 0x09, CHR 0x09, CHR 0x09, CHR 0x09] @
   ''<input type="text" name="router_ip" placeholder="'' @
   [CHR 0xE4, CHR 0xBE, CHR 0x8B, CHR 0xE5, CHR 0xA6, CHR 0x82] @
   '': 192.168.0.1" value="''\<close>

definition tmpl_text1 :: string where
  \<open>tmpl_text1 =
   ''"><br>'' @
   [CHR 0x0A, CHR 0x09, CHR 0x09, CHR 0x09, CHR 0x09, CHR 0x0A, CHR 0x09, CHR 0x09] @
   [CHR 0x09, CHR 0x09] @
   ''<label>Stok:</label><br>'' @
   [CHR 0x0A, CHR 0x09, CHR 0x09, CHR 0x09, CHR 0x09] @
   ''<input type="text" name="stok" placeholder="'' @
   [CHR 0xE8, CHR 0xB7, CHR 0xAF, CHR 0xE7, CHR 0x94, CHR 0xB1, CHR 0xE5, CHR 0x99] @
   [CHR 0xA8, CHR 0xE8, CHR 0xAE, CHR 0xA4, CHR 0xE8, CHR 0xAF, CHR 0x81, CHR 0xE4] @
   [CHR 0xBB, CHR 0xA4, CHR 0xE7, CHR 0x89, CHR 0x8C] @
   ''" value="''\<close>

definition tmpl_text2 :: string where
  \<open>tmpl_text2 =
   ''"><br>'' @
   [CHR 0x0A, CHR 0x09, CHR 0x09, CHR 0x09, CHR 0x09, CHR 0x0A, CHR 0x09, CHR 0x09] @
   [CHR 0x09, CHR 0x09] @
   ''<label>IPv6 Firewall Enable (on='' @
   [CHR 0xE5, CHR 0xBC, CHR 0x80, CHR 0xE5, CHR 0x90, CHR 0xAF] @
   '',off='' @
   [CHR 0xE5, CHR 0x85, CHR 0xB3, CHR 0xE9, CHR 0x97, CHR 0xAD] @
   ''):</label><br>'' @
   [CHR 0x0A, CHR 0x09, CHR 0x09, CHR 0x09, CHR 0x09] @
   ''<input type="text" name="ipv6_firewall_enable" placeholder="on'' @
   [CHR 0xE6, CHR 0x88, CHR 0x96] @
   ''off" value="''\<close>

definition tmpl_text3 :: string where
  \<open>tmpl_text3 =
   ''"><br>'' @
   [CHR 0x0A, CHR 0x09, CHR 0x09, CHR 0x09, CHR 0x09, CHR 0x0A, CHR 0x09, CHR 0x09] @
   [CHR 0x09, CHR 0x09] @
   ''<label>DMZ '' @
   [CHR 0xE5, CHR 0x90, CHR 0xAF, CHR 0xE7, CHR 0x94, CHR 0xA8, CHR 0xE7, CHR 0x8A] @
   [CHR 0xB6, CHR 0xE6, CHR 0x80, CHR 0x81] @
   '' (1='' @
   [CHR 0xE5, CHR 0x90, CHR 0xAF, CHR 0xE7, CHR 0x94, CHR 0xA8] @
   '',0='' @
   [CHR 0xE5, CHR 0x85, CHR 0xB3, CHR 0xE9, CHR 0x97, CHR 0xAD] @
   ''):</label><br>'' @
   [CHR 0x0A, CHR 0x09, CHR 0x09, CHR 0x09, CHR 0x09] @
   ''<input type="text" name="dmz_enable" placeholder="0'' @
   [CHR 0xE6, CHR 0x88, CHR 0x96] @
   ''1" value="''\<close>

definition tmpl_text4 :: string where
  \<open>tmpl_text4 =
   ''"><br>'' @
   [CHR 0x0A, CHR 0x09, CHR 0x09, CHR 0x09, CHR 0x09, CHR 0x0A, CHR 0x09, CHR 0x09] @
   [CHR 0x09, CHR 0x09] @
   ''<label>DMZ Destination IP (IPv4):</label><br>'' @
   [CHR 0x0A, CHR 0x09, CHR 0x09, CHR 0x09, CHR 0x09] @
   ''<input type="text" name="dmz_dest_ip" placeholder="'' @
   [CHR 0xE4, CHR 0xBE, CHR 0x8B, CHR 0xE5, CHR 0xA6, CHR 0x82] @
   '': 192.168.0.102" value="''\<close>

definition tmpl_text5 :: string where
  \<open>tmpl_text5 =
   ''"><br>'' @
   [CHR 0x0A, CHR 0x09, CHR 0x09, CHR 0x09, CHR 0x09, CHR 0x0A, CHR 0x09, CHR 0x09] @
   [CHR 0x09, CHR 0x09] @
   ''<label>DMZ Destination IPv6:</label><br>'' @
   [CHR 0x0A, CHR 0x09, CHR 0x09, CHR 0x09, CHR 0x09] @
   ''<input type="text" name="dmz_dest_ip6" placeholder="'' @
   [CHR 0xE4, CHR 0xBE, CHR 0x8B, CHR 0xE5, CHR 0xA6, CHR 0x82] @
   '': 240e:370:xx" value="''\<close>

definition tmpl_text6 :: string where
  \<open>tmpl_text6 =
   ''"><br>'' @
   [CHR 0x0A, CHR 0x09, CHR 0x09, CHR 0x09, CHR 0x09, CHR 0x0A, CHR 0x09, CHR 0x09] @
   [CHR 0x09, CHR 0x09] @
   ''<input type="submit" value="'' @
   [CHR 0xE6, CHR 0x8F, CHR 0x90, CHR 0xE4, CHR 0xBA, CHR 0xA4] @
   ''">'' @
   [CHR 0x0A, CHR 0x09, CHR 0x09, CHR 0x09] @
   ''</form>'' @
   [CHR 0x0A, CHR 0x09, CHR 0x09] @
   ''</body>'' @
   [CHR 0x0A, CHR 0x09] @
   ''</html>''\<close>

definition escapeByte :: "char \<Rightarrow> string" where
  \<open>escapeByte c =
     (if c = CHR 0x00 then [CHR 0xEF, CHR 0xBF, CHR 0xBD]
      else if c = CHR 0x22 then ''&#34;''
      else if c = CHR ''&'' then ''&amp;''
      else if c = CHR 0x27 then ''&#39;''
      else if c = CHR ''+'' then ''&#43;''
      else if c = CHR ''<'' then ''&lt;''
      else if c = CHR ''>'' then ''&gt;''
      else [c])\<close>

definition attrEscaper :: "string \<Rightarrow> string" where
  "attrEscaper s = concat (map escapeByte s)"

definition Execute :: "Config \<Rightarrow> string" where
  "Execute config =
     tmpl_text0 @ attrEscaper (RouterIP config) @
     tmpl_text1 @ attrEscaper (Stok config) @
     tmpl_text2 @ attrEscaper (IPv6FirewallEnable config) @
     tmpl_text3 @ attrEscaper (DmzEnable config) @
     tmpl_text4 @ attrEscaper (DmzDestIP config) @
     tmpl_text5 @ attrEscaper (DmzDestIP6 config) @
     tmpl_text6"

text \<open>
  \<open>handler\<close>, lines 101 to 165. It takes the settings and the response writer and
  returns both, with the calls of \<open>http.Post\<close> made on the way.
\<close>

definition handler ::
  "(string \<Rightarrow> string) \<Rightarrow> network \<Rightarrow> Request \<Rightarrow> Config \<times> ResponseWriter
     \<Rightarrow> Config \<times> ResponseWriter \<times> postCall list" where
  "handler unicodeLower http_Post r cw =
     (case cw of (config, w) \<Rightarrow>
      if Method r = ''POST'' then
        (let config = config\<lparr>RouterIP := FormValue r ''router_ip''\<rparr>;
             config = config\<lparr>Stok := FormValue r ''stok''\<rparr>;
             ipv6Firewall = ToLower unicodeLower (FormValue r ''ipv6_firewall_enable'');
             config = (if ipv6Firewall = ''on'' then config\<lparr>IPv6FirewallEnable := ''on''\<rparr>
                       else if ipv6Firewall = ''off'' then config\<lparr>IPv6FirewallEnable := ''off''\<rparr>
                       else config\<lparr>IPv6FirewallEnable := ipv6Firewall\<rparr>);
             dmzEnable = FormValue r ''dmz_enable'';
             (config, w) = (if dmzEnable = ''0'' \<or> dmzEnable = ''1''
                            then (config\<lparr>DmzEnable := dmzEnable\<rparr>, w)
                            else (config, Write (msg_dmz_invalid @ DmzEnable config @ ''<br>'') w));
             config = config\<lparr>DmzDestIP := FormValue r ''dmz_dest_ip''\<rparr>;
             config = config\<lparr>DmzDestIP6 := FormValue r ''dmz_dest_ip6''\<rparr>;
             ((success, message), calls) = sendRequest http_Post config
         in if success then (config, Redirect ''/success'' 303 w, calls)
            else (config, Write (msg_failed @ message) w, calls))
      else (config, Write (Execute config) w, []))"

section \<open>The Process Supervisor\<close>

text \<open>
  The package-level variables \<open>childProcess\<close> (a pointer to an \<open>os.Process\<close>, or
  \<open>nil\<close>) and \<open>processGroup\<close>. Of a process only its \<open>Pid\<close> is read. The mutex
  \<open>mu\<close> makes each of the operations below run as one step.
\<close>

record Process =
  Pid :: int

record supervisor =
  childProcess :: "Process option"
  processGroup :: int

definition initialSupervisor :: supervisor where
  "initialSupervisor = \<lparr>childProcess = None, processGroup = 0\<rparr>"

text \<open>
  What the program does to the world outside, in the order it does it: signals,
  sleeps (in milliseconds), console lines, system calls, process starts, goroutines
  started, and the end of the process.
\<close>

datatype signal = Interrupt | Kill

datatype event =
  Signal int signal
| Sleep nat
| Warning int error
| LoadLibrary string
| GetProcAddress string
| OpenProcess int
| TerminateProcess
| CloseHandle
| FreeLibrary
| Start string "string list" bool
| GoWatcher int
| Println string
| HandleFunc string
| GoServer
| Scan
| CloseServerQuit
| Exit int

text \<open>
  The operating system's answers: \<open>runtime.GOOS\<close>, the error of a signal sent to a
  process, the errors of the three Windows calls, and the outcome of starting a command.
\<close>

record os =
  GOOS :: string
  signalError :: "int \<Rightarrow> signal \<Rightarrow> error option"
  loadLibraryError :: "error option"
  getProcAddressError :: "error option"
  openProcessError :: "int \<Rightarrow> error option"
  startProcess :: "string \<Rightarrow> string list \<Rightarrow> error + Process"

text \<open>
  Lines 231 to 248: the attempt to end the process group on Windows. Each step is taken
  only if the one before gave no error. The two deferred calls run when
  \<open>cleanupProcesses\<close> returns, the later one first. \<open>uint32(processGroup)\<close> keeps
  the low 32 bits.
\<close>

definition terminateGroup :: "os \<Rightarrow> int \<Rightarrow> event list" where
  "terminateGroup env pg =
     LoadLibrary ''kernel32.dll'' #
     (case loadLibraryError env of
        Some err \<Rightarrow> []
      | None \<Rightarrow>
          GetProcAddress ''TerminateProcess'' #
          (case getProcAddressError env of
             Some err \<Rightarrow> []
           | None \<Rightarrow>
               OpenProcess (pg mod 2 ^ 32) #
               (case openProcessError env (pg mod 2 ^ 32) of
                  Some err \<Rightarrow> []
                | None \<Rightarrow> [TerminateProcess, CloseHandle]))
          @ [FreeLibrary])"

text \<open>\<open>cleanupProcesses\<close>, lines 217 to 253: the new state and the events.\<close>

definition cleanupProcesses :: "os \<Rightarrow> supervisor \<Rightarrow> supervisor \<times> event list" where
  "cleanupProcesses env s =
     (case childProcess s of
        None \<Rightarrow> (s, [])
      | Some p \<Rightarrow>
          if Pid p > 0 then
            (s\<lparr>childProcess := None, processGroup := 0\<rparr>,
             [Signal (Pid p) Interrupt, Sleep 1000, Signal (Pid p) Kill]
             @ (case signalError env (Pid p) Kill of
                  None \<Rightarrow> []
                | Some err \<Rightarrow> [Warning (Pid p) err])
             @ (if GOOS env = ''windows'' \<and> processGroup s > 0
                then terminateGroup env (processGroup s) else []))
          else (s, []))"

text \<open>
  \<open>safeExecCommand\<close>, lines 173 to 214: the error returned, the new state and the
  events. The flag of \<open>Start\<close> tells whether a new process group was asked for.
\<close>

definition safeExecCommand ::
  "os \<Rightarrow> string \<Rightarrow> string list \<Rightarrow> supervisor \<Rightarrow> error option \<times> supervisor \<times> event list" where
  "safeExecCommand env name args s =
     (case cleanupProcesses env s of (s1, ev) \<Rightarrow>
        (case startProcess env name args of
           Inl err \<Rightarrow> (Some err, s1, ev @ [Start name args (GOOS env = ''windows'')])
         | Inr p \<Rightarrow>
             (None,
              s1\<lparr>childProcess := Some p,
                  processGroup := (if GOOS env = ''windows'' then Pid p else processGroup s1)\<rparr>,
              ev @ [Start name args (GOOS env = ''windows''), GoWatcher (Pid p)])))"

text \<open>
  The goroutine started at line 205, once \<open>cmd.Wait()\<close> has returned: its locked
  section, lines 207 to 210.
\<close>

definition watcher :: "supervisor \<Rightarrow> supervisor" where
  "watcher s = s\<lparr>childProcess := None, processGroup := 0\<rparr>"

text \<open>
  The format string of line 262 up to its \<open>%s\<close> ("unsupported operating system: ").
\<close>

definition msg_unsupported_os :: string where
  "msg_unsupported_os =
   [CHR 0xE4, CHR 0xB8, CHR 0x8D, CHR 0xE6, CHR 0x94, CHR 0xAF, CHR 0xE6, CHR 0x8C] @
   [CHR 0x81, CHR 0xE7, CHR 0x9A, CHR 0x84, CHR 0xE6, CHR 0x93, CHR 0x8D, CHR 0xE4] @
   [CHR 0xBD, CHR 0x9C, CHR 0xE7, CHR 0xB3, CHR 0xBB, CHR 0xE7, CHR 0xBB, CHR 0x9F] @
   '': ''"

definition openBrowser :: "os \<Rightarrow> string \<Rightarrow> supervisor \<Rightarrow> error option \<times> supervisor \<times> event list" where
  "openBrowser env target s =
     (if GOOS env = ''windows''
      then safeExecCommand env ''cmd'' [''/c'', ''start'', ''/b'', target] s
      else (Some (ErrorString (msg_unsupported_os @ GOOS env)), s, []))"

definition cleanup :: "os \<Rightarrow> supervisor \<Rightarrow> supervisor \<times> event list" where
  "cleanup env s = cleanupProcesses env s"

text \<open>
  A sequence of supervisor operations, each with the operating system's answers at its
  time: a launch, the teardown, or a watcher reaching its locked section.
\<close>

datatype operation = Launch os string "string list" | Teardown os | Watcher

fun step :: "supervisor \<Rightarrow> operation \<Rightarrow> supervisor" where
  "step s (Launch env name args) = fst (snd (safeExecCommand env name args s))"
| "step s (Teardown env) = fst (cleanup env s)"
| "step s Watcher = watcher s"

definition run :: "operation list \<Rightarrow> supervisor" where
  "run ops = foldl step initialSupervisor ops"

text \<open>
  The operating system gives a started process a positive process id.
\<close>

fun positivePids :: "operation \<Rightarrow> bool" where
  "positivePids (Launch env name args) =
     (case startProcess env name args of Inl err \<Rightarrow> True | Inr p \<Rightarrow> Pid p > 0)"
| "positivePids (Teardown env) = True"
| "positivePids Watcher = True"

section \<open>The Lifecycle Controller\<close>

text \<open>
  Go runs the deferred calls of a function when it returns. \<open>os.Exit\<close> ends the
  program at once: deferred functions are not run.
\<close>

datatype deferred = DeferCleanup

fun runDeferred :: "os \<Rightarrow> deferred list \<Rightarrow> supervisor \<Rightarrow> supervisor \<times> event list" where
  "runDeferred env [] s = (s, [])"
| "runDeferred env (DeferCleanup # ds) s =
     (case cleanup env s of (s1, ev1) \<Rightarrow>
        (case runDeferred env ds s1 of (s2, ev2) \<Rightarrow> (s2, ev1 @ ev2)))"

definition os_Exit :: "int \<Rightarrow> deferred list \<Rightarrow> os \<Rightarrow> supervisor \<Rightarrow> supervisor \<times> event list" where
  "os_Exit code ds env s = (s, [Exit code])"

text \<open>
  The console lines of \<open>main\<close>, lines 278, 279, 312 and 316, as UTF-8 bytes: "error
  reading the config file:", "the configuration can be entered on the web page, the
  server uses the default port 8080...", "press Enter to close the program..." and "the
  program is closing...".
\<close>

definition msg_config_error :: string where
  "msg_config_error =
   [CHR 0xE8, CHR 0xAF, CHR 0xBB, CHR 0xE5, CHR 0x8F, CHR 0x96, CHR 0xE9, CHR 0x85] @
   [CHR 0x8D, CHR 0xE7, CHR 0xBD, CHR 0xAE, CHR 0xE6, CHR 0x96, CHR 0x87, CHR 0xE4] @
   [CHR 0xBB, CHR 0xB6, CHR 0xE9, CHR 0x94, CHR 0x99, CHR 0xE8, CHR 0xAF, CHR 0xAF] @
   '':''"

definition msg_default_port :: string where
  "msg_default_port =
   [CHR 0xE5, CHR 0xB0, CHR 0x86, CHR 0xE5, CHR 0x85, CHR 0x81, CHR 0xE8, CHR 0xAE] @
   [CHR 0xB8, CHR 0xE9, CHR 0x80, CHR 0x9A, CHR 0xE8, CHR 0xBF, CHR 0x87, CHR 0xE7] @
   [CHR 0xBD, CHR 0x91, CHR 0xE9, CHR 0xA1, CHR 0xB5, CHR 0xE8, CHR 0xBE, CHR 0x93] @
   [CHR 0xE5, CHR 0x85, CHR 0xA5, CHR 0xE9, CHR 0x85, CHR 0x8D, CHR 0xE7, CHR 0xBD] @
   [CHR 0xAE, CHR 0xEF, CHR 0xBC, CHR 0x8C, CHR 0xE6, CHR 0x9C, CHR 0x8D, CHR 0xE5] @
   [CHR 0x8A, CHR 0xA1, CHR 0xE5, CHR 0x99, CHR 0xA8, CHR 0xE4, CHR 0xBD, CHR 0xBF] @
   [CHR 0xE7, CHR 0x94, CHR 0xA8, CHR 0xE9, CHR 0xBB, CHR 0x98, CHR 0xE8, CHR 0xAE] @
   [CHR 0xA4, CHR 0xE7, CHR 0xAB, CHR 0xAF, CHR 0xE5, CHR 0x8F, CHR 0xA3] @
   '' 8080...''"

definition msg_press_enter :: string where
  "msg_press_enter =
   [CHR 0xE6, CHR 0x8C, CHR 0x89] @
   ''Enter'' @
   [CHR 0xE9, CHR 0x94, CHR 0xAE, CHR 0xE5, CHR 0x85, CHR 0xB3, CHR 0xE9, CHR 0x97] @
   [CHR 0xAD, CHR 0xE7, CHR 0xA8, CHR 0x8B, CHR 0xE5, CHR 0xBA, CHR 0x8F] @
   ''...''"

definition msg_closing :: string where
  "msg_closing =
   [CHR 0xE7, CHR 0xA8, CHR 0x8B, CHR 0xE5, CHR 0xBA, CHR 0x8F, CHR 0xE6, CHR 0xAD] @
   [CHR 0xA3, CHR 0xE5, CHR 0x9C, CHR 0xA8, CHR 0xE5, CHR 0x85, CHR 0xB3, CHR 0xE9] @
   [CHR 0x97, CHR 0xAD] @
   ''...''"

text \<open>
  \<open>main\<close>, lines 273 to 321, as the foreground goroutine runs it. The server and the
  browser launch run in the goroutine started at line 286; \<open>atEnter\<close> is the state of
  the supervisor's variables when \<open>scanner.Scan()\<close> returns, and no other goroutine
  changes them between that moment and the end. The result is the settings
  after the load, the supervisor's variables when the process ends, and the events of
  the foreground goroutine.
\<close>

definition main ::
  "os \<Rightarrow> (string \<Rightarrow> error + osFile) \<Rightarrow> supervisor \<Rightarrow> Config \<times> supervisor \<times> event list" where
  "main env os_Open atEnter =
     (let ds = [DeferCleanup];
          (err, config) = readConfig os_Open ''config.json'' zeroConfig;
          ev1 = (case err of
                   None \<Rightarrow> []
                 | Some e \<Rightarrow> [Println (msg_config_error @ '' '' @ Error e),
                               Println msg_default_port]);
          ev2 = [HandleFunc ''/'', HandleFunc ''/success'', GoServer,
                 Println msg_press_enter, Scan];
          ev3 = [Println msg_closing, CloseServerQuit, Sleep 500];
          (s, ev4) = os_Exit 0 ds env atEnter
      in (config, s, ev1 @ ev2 @ ev3 @ ev4))"

section \<open>Properties of the config load\<close>

text \<open>
  A file that cannot be opened or read, and a text that is not JSON, leave the two
  defaults in settings that are otherwise as before: with the zero value before, as in
  \<open>main\<close>, every other field is empty.
\<close>

lemma readConfig_open_fails:
  assumes "os_Open filename = Inl err"
  shows "readConfig os_Open filename zeroConfig
           = (Some err, zeroConfig\<lparr>ServerPort := ''8080'', DmzEnable := ''1''\<rparr>)"
  using assms by (simp add: readConfig_def)

lemma readConfig_read_fails:
  assumes "os_Open filename = Inr (File (Inl err))"
  shows "readConfig os_Open filename zeroConfig
           = (Some err, zeroConfig\<lparr>ServerPort := ''8080'', DmzEnable := ''1''\<rparr>)"
  using assms by (simp add: readConfig_def)

lemma readConfig_syntax_error:
  assumes "os_Open filename = Inr (File (Inr (Invalid m)))"
  shows "readConfig os_Open filename zeroConfig
           = (Some (SyntaxError m), zeroConfig\<lparr>ServerPort := ''8080'', DmzEnable := ''1''\<rparr>)"
  using assms by (simp add: readConfig_def)

text \<open>A member that does not select a field leaves that field as it was.\<close>

lemma setField_other_field:
  assumes "f \<noteq> FServerPort"
  shows "ServerPort (setField f v c) = ServerPort c"
  using assms by (cases f) simp_all

lemma setField_other_flag:
  assumes "f \<noteq> FDmzEnable"
  shows "DmzEnable (setField f v c) = DmzEnable c"
  using assms by (cases f) simp_all

lemma storeMember_other_field:
  assumes "fst m \<noteq> Some FServerPort"
  shows "ServerPort (snd (storeMember (e, c) m)) = ServerPort c"
proof (cases m)
  case (Pair k v)
  with assms show ?thesis
    by (cases k; cases v) (simp_all add: setField_other_field)
qed

lemma storeMember_other_flag:
  assumes "fst m \<noteq> Some FDmzEnable"
  shows "DmzEnable (snd (storeMember (e, c) m)) = DmzEnable c"
proof (cases m)
  case (Pair k v)
  with assms show ?thesis
    by (cases k; cases v) (simp_all add: setField_other_flag)
qed

lemma foldl_storeMember_port:
  assumes "\<forall>m \<in> set ms. fst m \<noteq> Some FServerPort"
  shows "ServerPort (snd (foldl storeMember ec ms)) = ServerPort (snd ec)"
  using assms
proof (induction ms arbitrary: ec)
  case Nil
  then show ?case by simp
next
  case (Cons m ms)
  obtain e c where ec: "ec = (e, c)"
    by (cases ec)
  from Cons.prems have "fst m \<noteq> Some FServerPort" and "\<forall>m \<in> set ms. fst m \<noteq> Some FServerPort"
    by simp_all
  then show ?case
    using Cons.IH [of "storeMember ec m"] by (simp add: ec storeMember_other_field)
qed

lemma foldl_storeMember_flag:
  assumes "\<forall>m \<in> set ms. fst m \<noteq> Some FDmzEnable"
  shows "DmzEnable (snd (foldl storeMember ec ms)) = DmzEnable (snd ec)"
  using assms
proof (induction ms arbitrary: ec)
  case Nil
  then show ?case by simp
next
  case (Cons m ms)
  obtain e c where ec: "ec = (e, c)"
    by (cases ec)
  from Cons.prems have "fst m \<noteq> Some FDmzEnable" and "\<forall>m \<in> set ms. fst m \<noteq> Some FDmzEnable"
    by simp_all
  then show ?case
    using Cons.IH [of "storeMember ec m"] by (simp add: ec storeMember_other_flag)
qed

text \<open>
  A config file that is an object with no member for the server port yields \<open>8080\<close>,
  and one with no member for the DMZ flag yields \<open>1\<close>, whether or not the load reports
  an error.
\<close>

lemma readConfig_default_port:
  assumes "os_Open filename = Inr (File (Inr (TopObject ms)))"
    and "\<forall>m \<in> set ms. fst m \<noteq> Some FServerPort"
  shows "ServerPort (snd (readConfig os_Open filename config)) = ''8080''"
  using assms by (simp add: readConfig_def foldl_storeMember_port)

lemma readConfig_default_flag:
  assumes "os_Open filename = Inr (File (Inr (TopObject ms)))"
    and "\<forall>m \<in> set ms. fst m \<noteq> Some FDmzEnable"
  shows "DmzEnable (snd (readConfig os_Open filename config)) = ''1''"
  using assms by (simp add: readConfig_def foldl_storeMember_flag)

section \<open>Properties of the form handler\<close>

text \<open>The three arms of the switch on the lowered IPv6 flag store the same value.\<close>

lemma ipv6_switch:
  "(if x = ''on'' then c\<lparr>IPv6FirewallEnable := ''on''\<rparr>
    else if x = ''off'' then c\<lparr>IPv6FirewallEnable := ''off''\<rparr>
    else c\<lparr>IPv6FirewallEnable := x\<rparr>) = c\<lparr>IPv6FirewallEnable := x\<rparr>"
  by (cases "x = ''on''"; cases "x = ''off''") simp_all

text \<open>A POST whose \<open>dmz_enable\<close> is \<open>0\<close> or \<open>1\<close>: nothing is written before the call.\<close>

lemma handler_POST_valid:
  assumes "Method r = ''POST''"
    and "FormValue r ''dmz_enable'' = ''0'' \<or> FormValue r ''dmz_enable'' = ''1''"
    and "c' = config\<lparr>RouterIP := FormValue r ''router_ip'',
                  Stok := FormValue r ''stok'',
                  IPv6FirewallEnable := ToLower u (FormValue r ''ipv6_firewall_enable''),
                  DmzEnable := FormValue r ''dmz_enable'',
                  DmzDestIP := FormValue r ''dmz_dest_ip'',
                  DmzDestIP6 := FormValue r ''dmz_dest_ip6''\<rparr>"
  shows "handler u net r (config, w) =
           (c',
            if fst (fst (sendRequest net c')) then Redirect ''/success'' 303 w
            else Write (msg_failed @ snd (fst (sendRequest net c'))) w,
            snd (sendRequest net c'))"
proof -
  have "Method r = ''POST'' \<longleftrightarrow> True"
    using assms(1) by simp
  moreover have "(FormValue r ''dmz_enable'' = ''0'' \<or> FormValue r ''dmz_enable'' = ''1'') \<longleftrightarrow> True"
    using assms(2) by simp
  ultimately show ?thesis
    unfolding handler_def Let_def case_prod_beta ipv6_switch assms(3)
    apply (simp only: if_True fst_conv snd_conv prod.case)
    apply simp
    done
qed

text \<open>A POST with any other \<open>dmz_enable\<close>: the warning is written first.\<close>

lemma handler_POST_invalid:
  assumes "Method r = ''POST''"
    and "\<not> (FormValue r ''dmz_enable'' = ''0'' \<or> FormValue r ''dmz_enable'' = ''1'')"
    and "c' = config\<lparr>RouterIP := FormValue r ''router_ip'',
                  Stok := FormValue r ''stok'',
                  IPv6FirewallEnable := ToLower u (FormValue r ''ipv6_firewall_enable''),
                  DmzDestIP := FormValue r ''dmz_dest_ip'',
                  DmzDestIP6 := FormValue r ''dmz_dest_ip6''\<rparr>"
    and "w1 = Write (msg_dmz_invalid @ DmzEnable config @ ''<br>'') w"
  shows "handler u net r (config, w) =
           (c',
            if fst (fst (sendRequest net c')) then Redirect ''/success'' 303 w1
            else Write (msg_failed @ snd (fst (sendRequest net c'))) w1,
            snd (sendRequest net c'))"
proof -
  have "Method r = ''POST'' \<longleftrightarrow> True"
    using assms(1) by simp
  moreover have "(FormValue r ''dmz_enable'' = ''0'' \<or> FormValue r ''dmz_enable'' = ''1'') \<longleftrightarrow> False"
    using assms(2) by simp
  ultimately show ?thesis
    unfolding handler_def Let_def case_prod_beta ipv6_switch assms(3) assms(4)
    apply (simp only: if_True if_False fst_conv snd_conv prod.case)
    apply simp
    done
qed

lemma handler_GET:
  assumes "Method r \<noteq> ''POST''"
  shows "handler u net r (config, w) = (config, Write (Execute config) w, [])"
  using assms unfolding handler_def by simp

lemma sendRequest_calls:
  "snd (sendRequest net c) =
     [\<lparr>url = ''http://'' @ RouterIP c @ ''/stok='' @ Stok c @ ''/ds'',
       contentType = ''application/json'', body = JSONText (requestBody c)\<rparr>]"
  by (simp add: sendRequest_def Marshal_def Let_def split: sum.splits)

lemma written_Write: "written (Write s w) = written w @ s"
  by (simp add: Write_def WriteHeader_def Let_def)

lemma written_Redirect: "written (Redirect t c w) = written w"
  by (simp add: Redirect_def WriteHeader_def)

lemma location_Write: "location (Write s w) = location w"
  by (simp add: Write_def WriteHeader_def Let_def)

text \<open>
  The settings after a POST, field by field. The server port is not a form field.
\<close>

lemma handler_POST_config:
  assumes "Method r = ''POST''"
  shows "fst (handler u net r (config, w)) =
           config\<lparr>RouterIP := FormValue r ''router_ip'',
                  Stok := FormValue r ''stok'',
                  IPv6FirewallEnable := ToLower u (FormValue r ''ipv6_firewall_enable''),
                  DmzEnable := (if FormValue r ''dmz_enable'' = ''0'' \<or> FormValue r ''dmz_enable'' = ''1''
                                then FormValue r ''dmz_enable'' else DmzEnable config),
                  DmzDestIP := FormValue r ''dmz_dest_ip'',
                  DmzDestIP6 := FormValue r ''dmz_dest_ip6''\<rparr>"
proof (cases "FormValue r ''dmz_enable'' = ''0'' \<or> FormValue r ''dmz_enable'' = ''1''")
  case True
  show ?thesis
    by (subst handler_POST_valid [OF assms True refl]) (simp add: True)
next
  case False
  show ?thesis
    by (subst handler_POST_invalid [OF assms False refl refl]) (simp add: False)
qed

text \<open>
  The form handler keeps a DMZ flag that is \<open>0\<close> or \<open>1\<close> that way, whatever is
  submitted and whatever the method.
\<close>

lemma handler_keeps_dmz_flag:
  assumes "DmzEnable config = ''0'' \<or> DmzEnable config = ''1''"
  shows "DmzEnable (fst (handler u net r (config, w))) = ''0''
       \<or> DmzEnable (fst (handler u net r (config, w))) = ''1''"
proof (cases "Method r = ''POST''")
  case True
  then show ?thesis
    using assms by (auto simp add: handler_POST_config)
next
  case False
  then show ?thesis
    using assms by (simp add: handler_GET)
qed

text \<open>
  A POST whose \<open>dmz_enable\<close> is \<open>0\<close> or \<open>1\<close>, on a response not yet begun: when the
  Router Client reports success the response is the redirect 303 to \<open>/success\<close> with
  nothing written; when it reports failure the response has status 200, no
  \<open>Location\<close> header, and the failure message as its body.
\<close>

lemma valid_submission_redirects_on_success:
  assumes "Method r = ''POST''"
    and "FormValue r ''dmz_enable'' = ''0'' \<or> FormValue r ''dmz_enable'' = ''1''"
    and "fst (fst (sendRequest net (fst (handler u net r (config, newResponseWriter)))))"
  shows "isRedirect 303 ''/success'' (fst (snd (handler u net r (config, newResponseWriter))))
       \<and> written (fst (snd (handler u net r (config, newResponseWriter)))) = []"
proof -
  note h = handler_POST_valid [OF assms(1,2) refl, of u net config newResponseWriter]
  from assms(3) have ok: "fst (fst (sendRequest net
      (config\<lparr>RouterIP := FormValue r ''router_ip'',
              Stok := FormValue r ''stok'',
              IPv6FirewallEnable := ToLower u (FormValue r ''ipv6_firewall_enable''),
              DmzEnable := FormValue r ''dmz_enable'',
              DmzDestIP := FormValue r ''dmz_dest_ip'',
              DmzDestIP6 := FormValue r ''dmz_dest_ip6''\<rparr>)))"
    by (subst (asm) h) simp
  have "fst (snd (handler u net r (config, newResponseWriter)))
          = Redirect ''/success'' 303 newResponseWriter"
    by (subst h) (simp add: ok)
  then show ?thesis
    by (simp add: isRedirect_def finishRequest_def Redirect_def WriteHeader_def
        newResponseWriter_def)
qed

lemma submission_reports_failure:
  assumes "Method r = ''POST''"
    and "\<not> fst (fst (sendRequest net (fst (handler u net r (config, newResponseWriter)))))"
  shows "status (finishRequest (fst (snd (handler u net r (config, newResponseWriter))))) = 200
       \<and> location (fst (snd (handler u net r (config, newResponseWriter)))) = None
       \<and> (\<exists>before. written (fst (snd (handler u net r (config, newResponseWriter))))
             = before @ msg_failed
               @ snd (fst (sendRequest net (fst (handler u net r (config, newResponseWriter))))))"
proof (cases "FormValue r ''dmz_enable'' = ''0'' \<or> FormValue r ''dmz_enable'' = ''1''")
  case True
  note h = handler_POST_valid [OF assms(1) True refl, of u net config newResponseWriter]
  from assms(2) show ?thesis
    by (subst h, subst h, subst h, subst h, subst (asm) h)
      (simp add: finishRequest_def Write_def WriteHeader_def newResponseWriter_def Let_def)
next
  case False
  note h = handler_POST_invalid [OF assms(1) False refl refl, of u net config newResponseWriter]
  from assms(2) show ?thesis
    by (subst h, subst h, subst h, subst h, subst (asm) h)
      (simp add: finishRequest_def Write_def WriteHeader_def newResponseWriter_def Let_def)
qed

section \<open>Properties of the supervisor\<close>

text \<open>
  The supervisor's variables never hold a process whose \<open>Pid\<close> is not positive, as
  long as the operating system gives positive process ids: the guard of
  \<open>cleanupProcesses\<close> is then true of every tracked process.
\<close>

lemma cleanupProcesses_clears:
  assumes "\<forall>p. childProcess s = Some p \<longrightarrow> Pid p > 0"
  shows "childProcess (fst (cleanupProcesses env s)) = None"
  using assms by (simp add: cleanupProcesses_def split: option.splits)

lemma cleanupProcesses_signals:
  assumes "childProcess s = Some p" and "Pid p > 0"
  shows "\<exists>rest. snd (cleanupProcesses env s)
           = [Signal (Pid p) Interrupt, Sleep 1000, Signal (Pid p) Kill] @ rest"
  using assms by (simp add: cleanupProcesses_def)

lemma safeExecCommand_tracks:
  "childProcess (fst (snd (safeExecCommand env name args s))) =
     (case startProcess env name args of
        Inl err \<Rightarrow> childProcess (fst (cleanupProcesses env s))
      | Inr p \<Rightarrow> Some p)"
  by (simp add: safeExecCommand_def split: prod.splits sum.splits)

lemma safeExecCommand_events:
  "\<exists>after. snd (snd (safeExecCommand env name args s))
     = snd (cleanupProcesses env s) @ Start name args (GOOS env = ''windows'') # after"
  by (simp add: safeExecCommand_def split: prod.splits sum.splits)

lemma step_positive:
  assumes "\<forall>p. childProcess s = Some p \<longrightarrow> Pid p > 0" and "positivePids op"
  shows "\<forall>p. childProcess (step s op) = Some p \<longrightarrow> Pid p > 0"
proof (cases op)
  case (Launch env name args)
  then show ?thesis
    using assms
    by (auto simp add: safeExecCommand_tracks cleanupProcesses_clears split: sum.splits)
next
  case (Teardown env)
  then show ?thesis
    using assms by (simp add: cleanup_def cleanupProcesses_clears)
next
  case Watcher
  then show ?thesis
    by (simp add: watcher_def)
qed

lemma foldl_step_positive:
  assumes "list_all positivePids ops" and "\<forall>p. childProcess s = Some p \<longrightarrow> Pid p > 0"
  shows "\<forall>p. childProcess (foldl step s ops) = Some p \<longrightarrow> Pid p > 0"
  using assms
proof (induction ops arbitrary: s)
  case Nil
  then show ?case by simp
next
  case (Cons op ops)
  from Cons.prems have "positivePids op" and rest: "list_all positivePids ops"
    by simp_all
  with Cons.prems(2) have "\<forall>p. childProcess (step s op) = Some p \<longrightarrow> Pid p > 0"
    using step_positive by blast
  with rest show ?case
    using Cons.IH by simp
qed

lemma run_positive:
  assumes "list_all positivePids ops"
  shows "\<forall>p. childProcess (run ops) = Some p \<longrightarrow> Pid p > 0"
  unfolding run_def
  by (rule foldl_step_positive [OF assms]) (simp add: initialSupervisor_def)

section \<open>The claims\<close>

text \<open>
  C2. A POST whose \<open>dmz_enable\<close> is neither \<open>0\<close> nor \<open>1\<close> leaves the DMZ flag as it
  was, puts into the response body the warning line that ends with the retained value and
  \<open><br>\<close>, and goes on: the Router Client is called, once, with the updated settings.
\<close>

theorem invalid_dmz_enable_is_rejected_and_handler_continues:
  assumes "Method r = ''POST''"
    and "FormValue r ''dmz_enable'' \<noteq> ''0''"
    and "FormValue r ''dmz_enable'' \<noteq> ''1''"
  shows "DmzEnable (fst (handler u net r (config, w))) = DmzEnable config
       \<and> (\<exists>rest. written (fst (snd (handler u net r (config, w))))
                    = written w @ msg_dmz_invalid @ DmzEnable config @ ''<br>'' @ rest)
       \<and> snd (snd (handler u net r (config, w)))
           = snd (sendRequest net (fst (handler u net r (config, w))))
       \<and> length (snd (snd (handler u net r (config, w)))) = 1"
proof -
  have inv: "\<not> (FormValue r ''dmz_enable'' = ''0'' \<or> FormValue r ''dmz_enable'' = ''1'')"
    using assms(2,3) by simp
  note h = handler_POST_invalid [OF assms(1) inv refl refl, of u net config w]
  have a: "DmzEnable (fst (handler u net r (config, w))) = DmzEnable config"
    by (subst h) simp
  have b: "\<exists>rest. written (fst (snd (handler u net r (config, w))))
                    = written w @ msg_dmz_invalid @ DmzEnable config @ ''<br>'' @ rest"
    by (subst h) (simp add: written_Write written_Redirect)
  have c: "snd (snd (handler u net r (config, w)))
           = snd (sendRequest net (fst (handler u net r (config, w))))"
    by (subst h, subst h) simp
  have d: "length (snd (snd (handler u net r (config, w)))) = 1"
    by (subst c) (simp add: sendRequest_calls)
  from a b c d show ?thesis by blast
qed

theorem invalid_dmz_enable_witness:
  "Method \<lparr>Method = ''POST'', Form = [(''dmz_enable'', [''5''])]\<rparr> = ''POST''
   \<and> FormValue \<lparr>Method = ''POST'', Form = [(''dmz_enable'', [''5''])]\<rparr> ''dmz_enable'' \<noteq> ''0''
   \<and> FormValue \<lparr>Method = ''POST'', Form = [(''dmz_enable'', [''5''])]\<rparr> ''dmz_enable'' \<noteq> ''1''
   \<and> DmzEnable (fst (handler id (\<lambda>call. Inl (UrlError ''connection refused''))
         \<lparr>Method = ''POST'', Form = [(''dmz_enable'', [''5''])]\<rparr>
         (zeroConfig\<lparr>DmzEnable := ''1''\<rparr>, newResponseWriter))) = ''1''
   \<and> length (snd (snd (handler id (\<lambda>call. Inl (UrlError ''connection refused''))
         \<lparr>Method = ''POST'', Form = [(''dmz_enable'', [''5''])]\<rparr>
         (zeroConfig\<lparr>DmzEnable := ''1''\<rparr>, newResponseWriter)))) = 1"
proof -
  let ?r = "\<lparr>Method = ''POST'', Form = [(''dmz_enable'', [''5''])]\<rparr>"
  have h1: "Method ?r = ''POST''"
    by simp
  have h2: "FormValue ?r ''dmz_enable'' \<noteq> ''0''"
    by (simp add: FormValue_def)
  have h3: "FormValue ?r ''dmz_enable'' \<noteq> ''1''"
    by (simp add: FormValue_def)
  note t = invalid_dmz_enable_is_rejected_and_handler_continues
    [OF h1 h2 h3, of id "\<lambda>call. Inl (UrlError ''connection refused'')"
       "zeroConfig\<lparr>DmzEnable := ''1''\<rparr>" newResponseWriter]
  from t have a: "DmzEnable (fst (handler id (\<lambda>call. Inl (UrlError ''connection refused'')) ?r
      (zeroConfig\<lparr>DmzEnable := ''1''\<rparr>, newResponseWriter))) = ''1''"
    by simp
  from t have d: "length (snd (snd (handler id (\<lambda>call. Inl (UrlError ''connection refused'')) ?r
      (zeroConfig\<lparr>DmzEnable := ''1''\<rparr>, newResponseWriter)))) = 1"
    by blast
  from h1 h2 h3 a d show ?thesis
    by blast
qed

text \<open>
  C7. After a POST the stored IPv6 firewall flag is the lower-cased submitted value,
  whatever it is; \<open>ON\<close> and \<open>on\<close> both give \<open>on\<close>.
\<close>

theorem ipv6_flag_is_stored_in_lower_case:
  assumes "Method r = ''POST''"
  shows "IPv6FirewallEnable (fst (handler u net r (config, w)))
           = ToLower u (FormValue r ''ipv6_firewall_enable'')
       \<and> ToLower u ''ON'' = ''on'' \<and> ToLower u ''on'' = ''on''"
proof -
  have a: "IPv6FirewallEnable (fst (handler u net r (config, w)))
             = ToLower u (FormValue r ''ipv6_firewall_enable'')"
    by (simp add: handler_POST_config [OF assms])
  have b: "ToLower u ''ON'' = ''on''"
    by code_simp
  have c: "ToLower u ''on'' = ''on''"
    by code_simp
  from a b c show ?thesis by simp
qed

theorem ipv6_flag_witness:
  "Method \<lparr>Method = ''POST'', Form = [(''ipv6_firewall_enable'', [''ON''])]\<rparr> = ''POST''
   \<and> IPv6FirewallEnable (fst (handler id (\<lambda>call. Inl (UrlError ''connection refused''))
         \<lparr>Method = ''POST'', Form = [(''ipv6_firewall_enable'', [''ON''])]\<rparr>
         (zeroConfig, newResponseWriter))) = ''on''"
proof -
  let ?r = "\<lparr>Method = ''POST'', Form = [(''ipv6_firewall_enable'', [''ON''])]\<rparr>"
  have h1: "Method ?r = ''POST''"
    by simp
  have v: "FormValue ?r ''ipv6_firewall_enable'' = ''ON''"
    by (simp add: FormValue_def)
  note t = ipv6_flag_is_stored_in_lower_case
    [OF h1, of id "\<lambda>call. Inl (UrlError ''connection refused'')" zeroConfig newResponseWriter]
  from t have "IPv6FirewallEnable (fst (handler id (\<lambda>call. Inl (UrlError ''connection refused'')) ?r
      (zeroConfig, newResponseWriter))) = ''on''"
    unfolding v by simp
  with h1 show ?thesis
    by blast
qed

text \<open>
  C4. For every value of the settings, the Router Client makes one call of
  \<open>http.Post\<close>: to \<open>http://{router_ip}/stok={stok}/ds\<close>, with content type
  \<open>application/json\<close>, and with the encoding of an object that has exactly the members
  \<open>firewall\<close> and \<open>method\<close>; \<open>method\<close> is \<open>set\<close>; \<open>firewall\<close> has exactly \<open>dmz\<close>
  and \<open>ipv6_firewall\<close>; \<open>dmz\<close> has exactly \<open>enable\<close>, \<open>dest_ip\<close>, \<open>wan_port\<close> and
  \<open>dest_ip6\<close>, taken from the settings, with \<open>wan_port\<close> the constant \<open>0\<close>; and
  \<open>ipv6_firewall\<close> has exactly \<open>enable\<close>, the IPv6 firewall flag.
\<close>

theorem router_command_shape:
  "\<exists>command firewall dmz ipv6.
     snd (sendRequest net config) =
       [\<lparr>url = ''http://'' @ RouterIP config @ ''/stok='' @ Stok config @ ''/ds'',
         contentType = ''application/json'', body = JSONText command\<rparr>]
     \<and> keys command = {''firewall'', ''method''}
     \<and> member ''method'' command = Some (JStr ''set'')
     \<and> member ''firewall'' command = Some firewall
     \<and> keys firewall = {''dmz'', ''ipv6_firewall''}
     \<and> member ''dmz'' firewall = Some dmz
     \<and> keys dmz = {''enable'', ''dest_ip'', ''wan_port'', ''dest_ip6''}
     \<and> member ''enable'' dmz = Some (JStr (DmzEnable config))
     \<and> member ''dest_ip'' dmz = Some (JStr (DmzDestIP config))
     \<and> member ''wan_port'' dmz = Some (JStr ''0'')
     \<and> member ''dest_ip6'' dmz = Some (JStr (DmzDestIP6 config))
     \<and> member ''ipv6_firewall'' firewall = Some ipv6
     \<and> keys ipv6 = {''enable''}
     \<and> member ''enable'' ipv6 = Some (JStr (IPv6FirewallEnable config))"
proof -
  let ?dmz = "JMap [(''enable'', JStr (DmzEnable config)), (''dest_ip'', JStr (DmzDestIP config)),
                    (''wan_port'', JStr ''0''), (''dest_ip6'', JStr (DmzDestIP6 config))]"
  let ?ipv6 = "JMap [(''enable'', JStr (IPv6FirewallEnable config))]"
  let ?fw = "JMap [(''dmz'', ?dmz), (''ipv6_firewall'', ?ipv6)]"
  have body: "requestBody config = JMap [(''firewall'', ?fw), (''method'', JStr ''set'')]"
    by (simp add: requestBody_def)
  have "snd (sendRequest net config) =
          [\<lparr>url = ''http://'' @ RouterIP config @ ''/stok='' @ Stok config @ ''/ds'',
            contentType = ''application/json'', body = JSONText (requestBody config)\<rparr>]"
    by (rule sendRequest_calls)
  moreover have "keys (requestBody config) = {''firewall'', ''method''}"
    unfolding body by auto
  moreover have "member ''method'' (requestBody config) = Some (JStr ''set'')"
    unfolding body by simp
  moreover have "member ''firewall'' (requestBody config) = Some ?fw"
    unfolding body by simp
  moreover have "keys ?fw = {''dmz'', ''ipv6_firewall''}"
    by auto
  moreover have "member ''dmz'' ?fw = Some ?dmz"
    by simp
  moreover have "keys ?dmz = {''enable'', ''dest_ip'', ''wan_port'', ''dest_ip6''}"
    by auto
  moreover have "member ''enable'' ?dmz = Some (JStr (DmzEnable config))"
    by simp
  moreover have "member ''dest_ip'' ?dmz = Some (JStr (DmzDestIP config))"
    by simp
  moreover have "member ''wan_port'' ?dmz = Some (JStr ''0'')"
    by simp
  moreover have "member ''dest_ip6'' ?dmz = Some (JStr (DmzDestIP6 config))"
    by simp
  moreover have "member ''ipv6_firewall'' ?fw = Some ?ipv6"
    by simp
  moreover have "keys ?ipv6 = {''enable''}"
    by simp
  moreover have "member ''enable'' ?ipv6 = Some (JStr (IPv6FirewallEnable config))"
    by simp
  ultimately show ?thesis
    by blast
qed

text \<open>
  C5. With \<open>call\<close> the one call that \<open>sendRequest\<close> makes: it returns \<open>true\<close> exactly
  when the call gave a response whose body could be read and whose status is 200; when
  a response came and its body was read, the text returned is that body, whatever the
  status; a transport error and a body-read error give \<open>false\<close> with a message that
  ends with the error's text, and so would a serialization error, which the encoder
  never gives for this value; and \<open>http.Post\<close> is called once.
\<close>

theorem sendRequest_outcome:
  "let call = \<lparr>url = ''http://'' @ RouterIP config @ ''/stok='' @ Stok config @ ''/ds'',
               contentType = ''application/json'', body = JSONText (requestBody config)\<rparr>;
       result = fst (sendRequest net config)
   in (fst result \<longleftrightarrow> (\<exists>resp b. net call = Inr resp \<and> Body resp = Inr b \<and> StatusCode resp = 200))
    \<and> (\<forall>resp b. net call = Inr resp \<and> Body resp = Inr b \<longrightarrow> snd result = b)
    \<and> (\<forall>err. net call = Inl err \<longrightarrow> result = (False, msg_request_error @ Error err))
    \<and> (\<forall>resp err. net call = Inr resp \<and> Body resp = Inl err
          \<longrightarrow> result = (False, msg_read_error @ Error err))
    \<and> (\<forall>err. Marshal (requestBody config) = Inl err
          \<longrightarrow> result = (False, msg_error @ Error err))
    \<and> Marshal (requestBody config) = Inr (JSONText (requestBody config))
    \<and> snd (sendRequest net config) = [call]"
proof -
  define call where "call = \<lparr>url = ''http://'' @ RouterIP config @ ''/stok='' @ Stok config @ ''/ds'',
               contentType = ''application/json'', body = JSONText (requestBody config)\<rparr>"
  have eqn: "sendRequest net config =
      (case net call of
         Inl err \<Rightarrow> ((False, msg_request_error @ Error err), [call])
       | Inr resp \<Rightarrow>
           (case Body resp of
              Inl err \<Rightarrow> ((False, msg_read_error @ Error err), [call])
            | Inr responseBody \<Rightarrow> ((StatusCode resp = 200, responseBody), [call])))"
    unfolding call_def sendRequest_def Marshal_def Let_def by (simp only: sum.case)
  have ok: "fst (fst (sendRequest net config))
      \<longleftrightarrow> (\<exists>resp b. net call = Inr resp \<and> Body resp = Inr b \<and> StatusCode resp = 200)"
    unfolding eqn by (auto split: sum.splits)
  have whole: "\<forall>resp b. net call = Inr resp \<and> Body resp = Inr b
      \<longrightarrow> snd (fst (sendRequest net config)) = b"
    unfolding eqn by (auto split: sum.splits)
  have transport: "\<forall>err. net call = Inl err
      \<longrightarrow> fst (sendRequest net config) = (False, msg_request_error @ Error err)"
    unfolding eqn by (auto split: sum.splits)
  have reading: "\<forall>resp err. net call = Inr resp \<and> Body resp = Inl err
      \<longrightarrow> fst (sendRequest net config) = (False, msg_read_error @ Error err)"
    unfolding eqn by (auto split: sum.splits)
  have encoding: "\<forall>err. Marshal (requestBody config) = Inl err
      \<longrightarrow> fst (sendRequest net config) = (False, msg_error @ Error err)"
    by (simp add: Marshal_def)
  have encoded: "Marshal (requestBody config) = Inr (JSONText (requestBody config))"
    by (simp add: Marshal_def)
  have once: "snd (sendRequest net config) = [call]"
    unfolding eqn by (auto split: sum.splits)
  from ok whole transport reading encoding encoded once show ?thesis
    unfolding Let_def call_def [symmetric] by blast
qed

text \<open>
  The theorem at three routers: one that cannot be reached, one that answers 404 with a
  body, and one whose body cannot be read.
\<close>

theorem sendRequest_outcome_witness:
  "fst (sendRequest (\<lambda>call. Inl (UrlError ''connection refused'')) zeroConfig)
     = (False, msg_request_error @ ''connection refused'')
   \<and> fst (sendRequest (\<lambda>call. Inr \<lparr>StatusCode = 404, Body = Inr ''not found''\<rparr>) zeroConfig)
     = (False, ''not found'')
   \<and> fst (sendRequest (\<lambda>call. Inr \<lparr>StatusCode = 200, Body = Inl (ReadError ''unexpected EOF'')\<rparr>)
        zeroConfig)
     = (False, msg_read_error @ ''unexpected EOF'')"
proof -
  have a: "fst (sendRequest (\<lambda>call. Inl (UrlError ''connection refused'')) zeroConfig)
     = (False, msg_request_error @ ''connection refused'')"
    using sendRequest_outcome
      [where net = "\<lambda>call. Inl (UrlError ''connection refused'')" and config = zeroConfig]
    by (simp add: Let_def)
  have b: "fst (sendRequest (\<lambda>call. Inr \<lparr>StatusCode = 404, Body = Inr ''not found''\<rparr>) zeroConfig)
     = (False, ''not found'')"
    using sendRequest_outcome
      [where net = "\<lambda>call. Inr \<lparr>StatusCode = 404, Body = Inr ''not found''\<rparr>"
         and config = zeroConfig]
    by (simp add: Let_def prod_eq_iff)
  have c: "fst (sendRequest (\<lambda>call. Inr \<lparr>StatusCode = 200, Body = Inl (ReadError ''unexpected EOF'')\<rparr>)
        zeroConfig)
     = (False, msg_read_error @ ''unexpected EOF'')"
    using sendRequest_outcome
      [where net = "\<lambda>call. Inr \<lparr>StatusCode = 200, Body = Inl (ReadError ''unexpected EOF'')\<rparr>"
         and config = zeroConfig]
    by (simp add: Let_def)
  from a b c show ?thesis
    by blast
qed

text \<open>
  C10. A POST whose Router Client call fails: the settings hold the submitted values
  (the DMZ flag when it is \<open>0\<close> or \<open>1\<close>), the failure message is the last thing written,
  the \<open>Location\<close> header is untouched, and a request with another method, handled next,
  leaves the settings alone and writes the form with the submitted values, escaped, as
  the \<open>value\<close> attributes.
\<close>

theorem failed_submission_keeps_submitted_settings:
  assumes "Method r = ''POST''"
    and "\<not> fst (fst (sendRequest net (fst (handler u net r (config, w)))))"
    and "Method g \<noteq> ''POST''"
  shows "let c' = fst (handler u net r (config, w));
             w' = fst (snd (handler u net r (config, w)))
         in RouterIP c' = FormValue r ''router_ip''
          \<and> Stok c' = FormValue r ''stok''
          \<and> IPv6FirewallEnable c' = ToLower u (FormValue r ''ipv6_firewall_enable'')
          \<and> (FormValue r ''dmz_enable'' = ''0'' \<or> FormValue r ''dmz_enable'' = ''1''
               \<longrightarrow> DmzEnable c' = FormValue r ''dmz_enable'')
          \<and> DmzDestIP c' = FormValue r ''dmz_dest_ip''
          \<and> DmzDestIP6 c' = FormValue r ''dmz_dest_ip6''
          \<and> (\<exists>before. written w' = before @ msg_failed @ snd (fst (sendRequest net c')))
          \<and> location w' = location w
          \<and> fst (handler u net2 g (c', w2)) = c'
          \<and> written (fst (snd (handler u net2 g (c', w2)))) =
               written w2
               @ tmpl_text0 @ attrEscaper (FormValue r ''router_ip'')
               @ tmpl_text1 @ attrEscaper (FormValue r ''stok'')
               @ tmpl_text2 @ attrEscaper (ToLower u (FormValue r ''ipv6_firewall_enable''))
               @ tmpl_text3 @ attrEscaper (DmzEnable c')
               @ tmpl_text4 @ attrEscaper (FormValue r ''dmz_dest_ip'')
               @ tmpl_text5 @ attrEscaper (FormValue r ''dmz_dest_ip6'')
               @ tmpl_text6"
proof -
  define c' where "c' = fst (handler u net r (config, w))"
  define w' where "w' = fst (snd (handler u net r (config, w)))"
  have cfg: "c' = config\<lparr>RouterIP := FormValue r ''router_ip'',
                  Stok := FormValue r ''stok'',
                  IPv6FirewallEnable := ToLower u (FormValue r ''ipv6_firewall_enable''),
                  DmzEnable := (if FormValue r ''dmz_enable'' = ''0'' \<or> FormValue r ''dmz_enable'' = ''1''
                                then FormValue r ''dmz_enable'' else DmzEnable config),
                  DmzDestIP := FormValue r ''dmz_dest_ip'',
                  DmzDestIP6 := FormValue r ''dmz_dest_ip6''\<rparr>"
    unfolding c'_def by (rule handler_POST_config [OF assms(1)])
  have failed: "\<not> fst (fst (sendRequest net c'))"
    using assms(2) unfolding c'_def .
  have f1: "RouterIP c' = FormValue r ''router_ip''"
    by (simp add: cfg)
  have f2: "Stok c' = FormValue r ''stok''"
    by (simp add: cfg)
  have f3: "IPv6FirewallEnable c' = ToLower u (FormValue r ''ipv6_firewall_enable'')"
    by (simp add: cfg)
  have f4: "FormValue r ''dmz_enable'' = ''0'' \<or> FormValue r ''dmz_enable'' = ''1''
               \<longrightarrow> DmzEnable c' = FormValue r ''dmz_enable''"
    by (simp add: cfg)
  have f5: "DmzDestIP c' = FormValue r ''dmz_dest_ip''"
    by (simp add: cfg)
  have f6: "DmzDestIP6 c' = FormValue r ''dmz_dest_ip6''"
    by (simp add: cfg)
  have resp: "(\<exists>before. written w' = before @ msg_failed @ snd (fst (sendRequest net c')))
       \<and> location w' = location w"
  proof (cases "FormValue r ''dmz_enable'' = ''0'' \<or> FormValue r ''dmz_enable'' = ''1''")
    case True
    have eq: "c' = config\<lparr>RouterIP := FormValue r ''router_ip'',
                  Stok := FormValue r ''stok'',
                  IPv6FirewallEnable := ToLower u (FormValue r ''ipv6_firewall_enable''),
                  DmzEnable := FormValue r ''dmz_enable'',
                  DmzDestIP := FormValue r ''dmz_dest_ip'',
                  DmzDestIP6 := FormValue r ''dmz_dest_ip6''\<rparr>"
      using True by (simp add: cfg)
    have "w' = Write (msg_failed @ snd (fst (sendRequest net c'))) w"
      unfolding w'_def handler_POST_valid [OF assms(1) True eq] using failed by simp
    then show ?thesis
      by (simp add: written_Write location_Write)
  next
    case False
    have eq: "c' = config\<lparr>RouterIP := FormValue r ''router_ip'',
                  Stok := FormValue r ''stok'',
                  IPv6FirewallEnable := ToLower u (FormValue r ''ipv6_firewall_enable''),
                  DmzDestIP := FormValue r ''dmz_dest_ip'',
                  DmzDestIP6 := FormValue r ''dmz_dest_ip6''\<rparr>"
      using False by (simp add: cfg)
    have "w' = Write (msg_failed @ snd (fst (sendRequest net c')))
                 (Write (msg_dmz_invalid @ DmzEnable config @ ''<br>'') w)"
      unfolding w'_def handler_POST_invalid [OF assms(1) False eq refl] using failed by simp
    then show ?thesis
      by (simp add: written_Write location_Write)
  qed
  have g1: "fst (handler u net2 g (c', w2)) = c'"
    by (simp add: handler_GET [OF assms(3)])
  have g2: "written (fst (snd (handler u net2 g (c', w2)))) =
               written w2
               @ tmpl_text0 @ attrEscaper (FormValue r ''router_ip'')
               @ tmpl_text1 @ attrEscaper (FormValue r ''stok'')
               @ tmpl_text2 @ attrEscaper (ToLower u (FormValue r ''ipv6_firewall_enable''))
               @ tmpl_text3 @ attrEscaper (DmzEnable c')
               @ tmpl_text4 @ attrEscaper (FormValue r ''dmz_dest_ip'')
               @ tmpl_text5 @ attrEscaper (FormValue r ''dmz_dest_ip6'')
               @ tmpl_text6"
    by (simp add: handler_GET [OF assms(3)] written_Write Execute_def f1 f2 f3 f5 f6)
  from f1 f2 f3 f4 f5 f6 resp g1 g2 show ?thesis
    unfolding Let_def c'_def [symmetric] w'_def [symmetric] by blast
qed

theorem failed_submission_witness:
  "Method \<lparr>Method = ''POST'', Form = [(''router_ip'', [''10.0.0.1'']), (''dmz_enable'', [''0''])]\<rparr>
     = ''POST''
   \<and> \<not> fst (fst (sendRequest (\<lambda>call. Inl (UrlError ''connection refused''))
        (fst (handler id (\<lambda>call. Inl (UrlError ''connection refused''))
           \<lparr>Method = ''POST'', Form = [(''router_ip'', [''10.0.0.1'']), (''dmz_enable'', [''0''])]\<rparr>
           (zeroConfig, newResponseWriter)))))
   \<and> Method \<lparr>Method = ''GET'', Form = []\<rparr> \<noteq> ''POST''
   \<and> RouterIP (fst (handler id (\<lambda>call. Inl (UrlError ''connection refused''))
           \<lparr>Method = ''POST'', Form = [(''router_ip'', [''10.0.0.1'']), (''dmz_enable'', [''0''])]\<rparr>
           (zeroConfig, newResponseWriter))) = ''10.0.0.1''
   \<and> DmzEnable (fst (handler id (\<lambda>call. Inl (UrlError ''connection refused''))
           \<lparr>Method = ''POST'', Form = [(''router_ip'', [''10.0.0.1'']), (''dmz_enable'', [''0''])]\<rparr>
           (zeroConfig, newResponseWriter))) = ''0''"
proof -
  let ?r = "\<lparr>Method = ''POST'', Form = [(''router_ip'', [''10.0.0.1'']), (''dmz_enable'', [''0''])]\<rparr>"
  let ?g = "\<lparr>Method = ''GET'', Form = []\<rparr>"
  let ?net = "\<lambda>call::postCall. Inl (UrlError ''connection refused'') :: error + Response"
  have h1: "Method ?r = ''POST''"
    by simp
  have h2: "\<not> fst (fst (sendRequest ?net (fst (handler id ?net ?r (zeroConfig, newResponseWriter)))))"
    by (simp add: sendRequest_def Marshal_def Let_def)
  have h3: "Method ?g \<noteq> ''POST''"
    by simp
  have v1: "FormValue ?r ''router_ip'' = ''10.0.0.1''"
    by (simp add: FormValue_def)
  have v2: "FormValue ?r ''dmz_enable'' = ''0''"
    by (simp add: FormValue_def)
  note t = failed_submission_keeps_submitted_settings
    [OF h1 h2 h3, of ?net newResponseWriter, unfolded Let_def v1 v2]
  from t have a: "RouterIP (fst (handler id ?net ?r (zeroConfig, newResponseWriter))) = ''10.0.0.1''"
    by blast
  from t have b: "DmzEnable (fst (handler id ?net ?r (zeroConfig, newResponseWriter))) = ''0''"
    by simp
  from h1 h2 h3 a b show ?thesis
    by blast
qed

text \<open>
  C8. After any sequence of launches, teardowns and watcher steps from the initial state
  (with positive process ids from the operating system), the variable \<open>childProcess\<close>
  holds at most one handle, and a launch from there: sends the tracked process, if there
  is one, the interrupt signal, waits a second and sends it the kill signal; has cleared
  the variable when the teardown is over; starts the new command only after the events
  of the teardown; and ends with the variable holding the new process, or nothing when
  the start failed.
\<close>

theorem launch_tears_down_the_tracked_process_first:
  assumes "list_all positivePids ops"
  shows "card (set_option (childProcess (run ops))) \<le> 1
       \<and> (\<forall>p. childProcess (run ops) = Some p \<longrightarrow>
            (\<exists>rest. snd (cleanupProcesses env (run ops))
               = [Signal (Pid p) Interrupt, Sleep 1000, Signal (Pid p) Kill] @ rest))
       \<and> childProcess (fst (cleanupProcesses env (run ops))) = None
       \<and> (\<exists>after. snd (snd (safeExecCommand env name args (run ops)))
            = snd (cleanupProcesses env (run ops))
              @ Start name args (GOOS env = ''windows'') # after)
       \<and> childProcess (fst (snd (safeExecCommand env name args (run ops))))
           = (case startProcess env name args of Inl err \<Rightarrow> None | Inr p \<Rightarrow> Some p)"
proof -
  note pos = run_positive [OF assms]
  have one: "card (set_option (childProcess (run ops))) \<le> 1"
    by (cases "childProcess (run ops)") simp_all
  have signalled: "\<forall>p. childProcess (run ops) = Some p \<longrightarrow>
            (\<exists>rest. snd (cleanupProcesses env (run ops))
               = [Signal (Pid p) Interrupt, Sleep 1000, Signal (Pid p) Kill] @ rest)"
    using pos cleanupProcesses_signals by blast
  have cleared: "childProcess (fst (cleanupProcesses env (run ops))) = None"
    by (rule cleanupProcesses_clears [OF pos])
  have order: "\<exists>after. snd (snd (safeExecCommand env name args (run ops)))
            = snd (cleanupProcesses env (run ops))
              @ Start name args (GOOS env = ''windows'') # after"
    by (rule safeExecCommand_events)
  have tracked: "childProcess (fst (snd (safeExecCommand env name args (run ops))))
           = (case startProcess env name args of Inl err \<Rightarrow> None | Inr p \<Rightarrow> Some p)"
    by (simp add: safeExecCommand_tracks cleared split: sum.splits)
  from one signalled cleared order tracked show ?thesis
    by blast
qed

text \<open>
  The theorem after one launch on Windows that started the process 4242, for a second
  launch under the same answers of the operating system.
\<close>

theorem launch_witness:
  "list_all positivePids
     [Launch
        \<lparr>GOOS = ''windows'', signalError = (\<lambda>pid sg. None), loadLibraryError = None,
          getProcAddressError = None, openProcessError = (\<lambda>pid. None),
          startProcess = (\<lambda>name args. Inr \<lparr>Pid = 4242\<rparr>)\<rparr>
        ''cmd'' [''/c'']]
   \<and> (\<exists>rest. snd (cleanupProcesses
        \<lparr>GOOS = ''windows'', signalError = (\<lambda>pid sg. None), loadLibraryError = None,
          getProcAddressError = None, openProcessError = (\<lambda>pid. None),
          startProcess = (\<lambda>name args. Inr \<lparr>Pid = 4242\<rparr>)\<rparr>
        (run [Launch
        \<lparr>GOOS = ''windows'', signalError = (\<lambda>pid sg. None), loadLibraryError = None,
          getProcAddressError = None, openProcessError = (\<lambda>pid. None),
          startProcess = (\<lambda>name args. Inr \<lparr>Pid = 4242\<rparr>)\<rparr>
        ''cmd'' [''/c'']]))
      = [Signal 4242 Interrupt, Sleep 1000, Signal 4242 Kill] @ rest)
   \<and> childProcess (fst (snd (safeExecCommand
        \<lparr>GOOS = ''windows'', signalError = (\<lambda>pid sg. None), loadLibraryError = None,
          getProcAddressError = None, openProcessError = (\<lambda>pid. None),
          startProcess = (\<lambda>name args. Inr \<lparr>Pid = 4242\<rparr>)\<rparr>
        ''cmd'' [''/c'']
        (run [Launch
        \<lparr>GOOS = ''windows'', signalError = (\<lambda>pid sg. None), loadLibraryError = None,
          getProcAddressError = None, openProcessError = (\<lambda>pid. None),
          startProcess = (\<lambda>name args. Inr \<lparr>Pid = 4242\<rparr>)\<rparr>
        ''cmd'' [''/c'']])))) = Some \<lparr>Pid = 4242\<rparr>"
proof -
  let ?env = "\<lparr>GOOS = ''windows'', signalError = (\<lambda>pid sg. None), loadLibraryError = None,
          getProcAddressError = None, openProcessError = (\<lambda>pid. None),
          startProcess = (\<lambda>name args. Inr \<lparr>Pid = 4242\<rparr>)\<rparr>"
  let ?ops = "[Launch ?env ''cmd'' [''/c'']]"
  have h: "list_all positivePids ?ops"
    by simp
  have before: "childProcess (run ?ops) = Some \<lparr>Pid = 4242\<rparr>"
    by (simp add: run_def initialSupervisor_def safeExecCommand_def cleanupProcesses_def)
  note t = launch_tears_down_the_tracked_process_first [OF h, of ?env "''cmd''" "[''/c'']"]
  from t before have signalled: "\<exists>rest. snd (cleanupProcesses ?env (run ?ops))
      = [Signal 4242 Interrupt, Sleep 1000, Signal 4242 Kill] @ rest"
    by fastforce
  from t have "childProcess (fst (snd (safeExecCommand ?env ''cmd'' [''/c''] (run ?ops))))
      = (case startProcess ?env ''cmd'' [''/c''] of Inl err \<Rightarrow> None | Inr p \<Rightarrow> Some p)"
    by blast
  then have after: "childProcess (fst (snd (safeExecCommand ?env ''cmd'' [''/c''] (run ?ops))))
      = Some \<lparr>Pid = 4242\<rparr>"
    by simp
  from h signalled after show ?thesis
    by blast
qed

text \<open>
  C1, at a config file whose content is \<open>{"dmz_enable": "5"}\<close>: the load succeeds and
  the DMZ flag is \<open>5\<close>; a form submission with the invalid value \<open>2\<close> then keeps it.
\<close>

theorem config_load_stores_any_dmz_flag:
  "readConfig (\<lambda>name. Inr (File (Inr (TopObject [(Some FDmzEnable, VString ''5'')]))))
     ''config.json'' zeroConfig
     = (None, zeroConfig\<lparr>ServerPort := ''8080'', DmzEnable := ''5''\<rparr>)
   \<and> DmzEnable (fst (handler id (\<lambda>call. Inr \<lparr>StatusCode = 200, Body = Inr ''ok''\<rparr>)
        \<lparr>Method = ''POST'', Form = [(''dmz_enable'', [''2''])]\<rparr>
        (zeroConfig\<lparr>ServerPort := ''8080'', DmzEnable := ''5''\<rparr>, newResponseWriter))) = ''5''"
proof -
  have a: "readConfig (\<lambda>name. Inr (File (Inr (TopObject [(Some FDmzEnable, VString ''5'')]))))
     ''config.json'' zeroConfig
     = (None, zeroConfig\<lparr>ServerPort := ''8080'', DmzEnable := ''5''\<rparr>)"
    by (simp add: readConfig_def zeroConfig_def)
  have b: "DmzEnable (fst (handler id (\<lambda>call. Inr \<lparr>StatusCode = 200, Body = Inr ''ok''\<rparr>)
        \<lparr>Method = ''POST'', Form = [(''dmz_enable'', [''2''])]\<rparr>
        (zeroConfig\<lparr>ServerPort := ''8080'', DmzEnable := ''5''\<rparr>, newResponseWriter))) = ''5''"
    by (simp add: handler_POST_config FormValue_def)
  from a b show ?thesis
    by blast
qed

text \<open>
  C3, at a POST with \<open>dmz_enable=5\<close>, \<open>router_ip=192.168.0.1\<close> and \<open>stok=abc\<close> whose
  router answers 200: the Router Client reports success, the handler calls
  \<open>http.Redirect\<close>, yet the warning written before has fixed the status at 200, so the
  response is no redirect; its body is the warning.
\<close>

theorem redirect_after_warning_is_lost:
  "fst (fst (sendRequest (\<lambda>call. Inr \<lparr>StatusCode = 200, Body = Inr ''ok''\<rparr>)
      (fst (handler id (\<lambda>call. Inr \<lparr>StatusCode = 200, Body = Inr ''ok''\<rparr>)
        \<lparr>Method = ''POST'',
          Form = [(''dmz_enable'', [''5'']), (''router_ip'', [''192.168.0.1'']), (''stok'', [''abc''])]\<rparr>
        (zeroConfig\<lparr>ServerPort := ''8080'', DmzEnable := ''1''\<rparr>, newResponseWriter)))))
   \<and> status (finishRequest (fst (snd (handler id (\<lambda>call. Inr \<lparr>StatusCode = 200, Body = Inr ''ok''\<rparr>)
        \<lparr>Method = ''POST'',
          Form = [(''dmz_enable'', [''5'']), (''router_ip'', [''192.168.0.1'']), (''stok'', [''abc''])]\<rparr>
        (zeroConfig\<lparr>ServerPort := ''8080'', DmzEnable := ''1''\<rparr>, newResponseWriter))))) = 200
   \<and> \<not> isRedirect 303 ''/success'' (fst (snd (handler id (\<lambda>call. Inr \<lparr>StatusCode = 200, Body = Inr ''ok''\<rparr>)
        \<lparr>Method = ''POST'',
          Form = [(''dmz_enable'', [''5'']), (''router_ip'', [''192.168.0.1'']), (''stok'', [''abc''])]\<rparr>
        (zeroConfig\<lparr>ServerPort := ''8080'', DmzEnable := ''1''\<rparr>, newResponseWriter))))
   \<and> written (fst (snd (handler id (\<lambda>call. Inr \<lparr>StatusCode = 200, Body = Inr ''ok''\<rparr>)
        \<lparr>Method = ''POST'',
          Form = [(''dmz_enable'', [''5'']), (''router_ip'', [''192.168.0.1'']), (''stok'', [''abc''])]\<rparr>
        (zeroConfig\<lparr>ServerPort := ''8080'', DmzEnable := ''1''\<rparr>, newResponseWriter)))) = msg_dmz_invalid @ ''1<br>''"
proof -
  let ?r = "\<lparr>Method = ''POST'',
          Form = [(''dmz_enable'', [''5'']), (''router_ip'', [''192.168.0.1'']), (''stok'', [''abc''])]\<rparr>"
  let ?net = "\<lambda>call::postCall. Inr \<lparr>StatusCode = 200, Body = Inr ''ok''\<rparr> :: error + Response"
  have h1: "Method ?r = ''POST''"
    by simp
  have h2: "\<not> (FormValue ?r ''dmz_enable'' = ''0'' \<or> FormValue ?r ''dmz_enable'' = ''1'')"
    by (simp add: FormValue_def)
  have ok: "fst (fst (sendRequest ?net c))" for c
    by (simp add: sendRequest_def Marshal_def Let_def)
  note h = handler_POST_invalid [OF h1 h2 refl refl, of id ?net
      "zeroConfig\<lparr>ServerPort := ''8080'', DmzEnable := ''1''\<rparr>" newResponseWriter]
  have w: "fst (snd (handler id ?net ?r
              (zeroConfig\<lparr>ServerPort := ''8080'', DmzEnable := ''1''\<rparr>, newResponseWriter)))
           = Redirect ''/success'' 303 (Write (msg_dmz_invalid @ ''1<br>'') newResponseWriter)"
    by (subst h) (simp add: ok)
  have a: "status (finishRequest (Redirect ''/success'' 303
              (Write (msg_dmz_invalid @ ''1<br>'') newResponseWriter))) = 200"
    by (simp add: finishRequest_def Redirect_def Write_def WriteHeader_def newResponseWriter_def
        Let_def)
  have b: "written (Redirect ''/success'' 303
              (Write (msg_dmz_invalid @ ''1<br>'') newResponseWriter)) = msg_dmz_invalid @ ''1<br>''"
    by (simp add: written_Redirect written_Write newResponseWriter_def)
  from ok a b show ?thesis
    unfolding w isRedirect_def by simp
qed

text \<open>
  C6, at a config file whose content is
  \<open>{"server_port": "9090", "router_ip": "10.0.0.1", "stok": 5}\<close>: the load fails with a
  type error for \<open>stok\<close>, and the settings returned have server port \<open>9090\<close> and a
  router address, while \<open>main\<close> prints that the default port 8080 is used.
\<close>

theorem failed_load_keeps_decoded_fields:
  "readConfig (\<lambda>name. Inr (File (Inr (TopObject
        [(Some FServerPort, VString ''9090''), (Some FRouterIP, VString ''10.0.0.1''),
         (Some FStok, VOther KNumber)]))))
     ''config.json'' zeroConfig
     = (Some (UnmarshalTypeError KNumber (Some FStok)),
        zeroConfig\<lparr>RouterIP := ''10.0.0.1'', ServerPort := ''9090'', DmzEnable := ''1''\<rparr>)
   \<and> ServerPort (fst (main
        \<lparr>GOOS = ''windows'', signalError = (\<lambda>pid sg. None), loadLibraryError = None,
          getProcAddressError = None, openProcessError = (\<lambda>pid. None),
          startProcess = (\<lambda>name args. Inr \<lparr>Pid = 4242\<rparr>)\<rparr>
        (\<lambda>name. Inr (File (Inr (TopObject
        [(Some FServerPort, VString ''9090''), (Some FRouterIP, VString ''10.0.0.1''),
         (Some FStok, VOther KNumber)]))))
        initialSupervisor)) = ''9090''
   \<and> Println msg_default_port \<in> set (snd (snd (main
        \<lparr>GOOS = ''windows'', signalError = (\<lambda>pid sg. None), loadLibraryError = None,
          getProcAddressError = None, openProcessError = (\<lambda>pid. None),
          startProcess = (\<lambda>name args. Inr \<lparr>Pid = 4242\<rparr>)\<rparr>
        (\<lambda>name. Inr (File (Inr (TopObject
        [(Some FServerPort, VString ''9090''), (Some FRouterIP, VString ''10.0.0.1''),
         (Some FStok, VOther KNumber)]))))
        initialSupervisor)))"
proof -
  have a: "readConfig (\<lambda>name. Inr (File (Inr (TopObject
        [(Some FServerPort, VString ''9090''), (Some FRouterIP, VString ''10.0.0.1''),
         (Some FStok, VOther KNumber)]))))
     ''config.json'' zeroConfig
     = (Some (UnmarshalTypeError KNumber (Some FStok)),
        zeroConfig\<lparr>RouterIP := ''10.0.0.1'', ServerPort := ''9090'', DmzEnable := ''1''\<rparr>)"
    by (simp add: readConfig_def zeroConfig_def)
  show ?thesis
    unfolding main_def a Let_def os_Exit_def by (simp add: zeroConfig_def)
qed

text \<open>
  C9, on Windows with the process 4242 still tracked when the console line arrives: the
  foreground goroutine closes the shutdown signal, sleeps 500 ms and exits with code 0.
  The teardown is registered with \<open>defer\<close> but \<open>os.Exit\<close> does not run it: no signal
  is sent and the process is still tracked at the exit. Run on return, the deferred
  teardown would have cleared the variable.
\<close>

theorem exit_skips_the_deferred_teardown:
  "main
     \<lparr>GOOS = ''windows'', signalError = (\<lambda>pid sg. None), loadLibraryError = None,
          getProcAddressError = None, openProcessError = (\<lambda>pid. None),
          startProcess = (\<lambda>name args. Inr \<lparr>Pid = 4242\<rparr>)\<rparr>
     (\<lambda>name. Inr (File (Inr (TopObject []))))
     \<lparr>childProcess = Some \<lparr>Pid = 4242\<rparr>, processGroup = 4242\<rparr>
   = (zeroConfig\<lparr>ServerPort := ''8080'', DmzEnable := ''1''\<rparr>,
      \<lparr>childProcess = Some \<lparr>Pid = 4242\<rparr>, processGroup = 4242\<rparr>,
      [HandleFunc ''/'', HandleFunc ''/success'', GoServer, Println msg_press_enter, Scan,
       Println msg_closing, CloseServerQuit, Sleep 500, Exit 0])
   \<and> childProcess (fst (runDeferred
        \<lparr>GOOS = ''windows'', signalError = (\<lambda>pid sg. None), loadLibraryError = None,
          getProcAddressError = None, openProcessError = (\<lambda>pid. None),
          startProcess = (\<lambda>name args. Inr \<lparr>Pid = 4242\<rparr>)\<rparr>
        [DeferCleanup]
        \<lparr>childProcess = Some \<lparr>Pid = 4242\<rparr>, processGroup = 4242\<rparr>)) = None"
proof -
  have a: "readConfig (\<lambda>name. Inr (File (Inr (TopObject [])))) ''config.json'' zeroConfig
     = (None, zeroConfig\<lparr>ServerPort := ''8080'', DmzEnable := ''1''\<rparr>)"
    by (simp add: readConfig_def)
  have b: "childProcess (fst (runDeferred
        \<lparr>GOOS = ''windows'', signalError = (\<lambda>pid sg. None), loadLibraryError = None,
          getProcAddressError = None, openProcessError = (\<lambda>pid. None),
          startProcess = (\<lambda>name args. Inr \<lparr>Pid = 4242\<rparr>)\<rparr>
        [DeferCleanup]
        \<lparr>childProcess = Some \<lparr>Pid = 4242\<rparr>, processGroup = 4242\<rparr>)) = None"
    by (simp add: cleanup_def cleanupProcesses_def split: prod.splits)
  show ?thesis
    unfolding main_def a Let_def os_Exit_def using b by simp
qed

end
